theory Spec2Isabelle
  imports Main "HOL-Library.Char_ord" "HOL-Library.List_Lexorder"
begin

section \<open>Vocabulary shared by the models and the routes\<close>

text \<open>
  Document identifiers (MongoDB ObjectIds, compared in the source through
  \<^verbatim>\<open>toString()\<close>) are natural numbers; two identifiers are equal exactly when
  their string forms are. A date is the number of milliseconds since the epoch, as a
  JavaScript \<^verbatim>\<open>Date\<close> holds it. A field that is \<^verbatim>\<open>undefined\<close> (or
  \<^verbatim>\<open>null\<close>) in the source is \<open>None\<close> here. Stored references and the ids in
  route paths are identifiers that have been cast; the raw \<^verbatim>\<open>circuitCourtId\<close> of a
  court body, which need not cast, has the type \<open>id_param\<close> below.
\<close>

type_synonym object_id = nat
type_synonym date = int

datatype court_type = Circuit | Magisterial

datatype employment_status = Active | Retired | Dismissed | OnLeave

datatype role = Admin | CircuitUser | MagisterialUser

text \<open>
  What a route answers when it does not answer with the payload: the HTTP status the
  handler sends (400, 403, 404, 500) with its message. Status 500 is what every
  \<^verbatim>\<open>catch\<close> block of the routes sends, whatever was thrown.
\<close>

datatype failure =
    ValidationFailed string
  | PermissionDenied string
  | NotFound string
  | InternalError

fun http_status :: "failure \<Rightarrow> nat" where
  "http_status (ValidationFailed m) = 400"
| "http_status (PermissionDenied m) = 403"
| "http_status (NotFound m) = 404"
| "http_status InternalError = 500"

text \<open>The caller identity that \<^verbatim>\<open>authenticateToken\<close> stores in \<^verbatim>\<open>req.user\<close>.\<close>

record caller =
  userId :: object_id
  role :: role
  callerCircuitCourtId :: "object_id option"

text \<open>
  String helpers: \<^verbatim>\<open>String.prototype.trim\<close> on the ASCII white space characters, which
  the \<^verbatim>\<open>trim\<close> sanitizer of the route validators and the \<^verbatim>\<open>trim: true\<close>
  setters of the schemas apply.
\<close>

definition is_space :: "char \<Rightarrow> bool" where
  "is_space c = (c \<in> set [CHR '' '', CHR 0x09, CHR 0x0A, CHR 0x0B, CHR 0x0C, CHR 0x0D])"

definition trim :: "string \<Rightarrow> string" where
  "trim s = rev (dropWhile is_space (rev (dropWhile is_space s)))"


section \<open>The staff model\<close>

text \<open>
  The staff schema. Of the plain descriptive paths the record keeps \<open>name\<close>,
  \<open>position\<close>, \<open>salary\<close> and \<open>notes\<close> (here \<open>staff_notes\<close>); the remaining ones
  (phone, email, education, department, supervisor, emergency contact, address) are
  handled by the operations below as \<open>notes\<close> is: assigned from a body key of the same
  name and checked by their own schema validator, and read by nothing else.
\<close>

record staff =
  staff_id :: object_id
  name :: string
  position :: string
  courtType :: court_type
  courtId :: object_id
  employmentStatus :: employment_status
  hireDate :: "date option"
  retirementDate :: "date option"
  dismissalDate :: "date option"
  leaveStartDate :: "date option"
  leaveEndDate :: "date option"
  salary :: "int option"
  staff_notes :: "string option"

text \<open>
  The schema validators that Mongoose runs on \<^verbatim>\<open>save()\<close>. The three conditional
  \<^verbatim>\<open>required\<close> functions of the status dates are kept apart from the validators of
  the other paths.
\<close>

definition dates_valid :: "staff \<Rightarrow> bool" where
  "dates_valid s =
     ((employmentStatus s \<noteq> Retired \<or> retirementDate s \<noteq> None) \<and>
      (employmentStatus s \<noteq> Dismissed \<or> dismissalDate s \<noteq> None) \<and>
      (employmentStatus s \<noteq> OnLeave \<or> leaveStartDate s \<noteq> None))"

definition fields_valid :: "staff \<Rightarrow> bool" where
  "fields_valid s =
     (name s \<noteq> [] \<and> length (name s) \<le> 100 \<and>
      position s \<noteq> [] \<and> length (position s) \<le> 100 \<and>
      (case salary s of None \<Rightarrow> True | Some x \<Rightarrow> 0 \<le> x) \<and>
      (case staff_notes s of None \<Rightarrow> True | Some n \<Rightarrow> length n \<le> 1000))"

text \<open>\<^verbatim>\<open>staffSchema.pre('save')\<close>: clear the dates that do not belong to the status.\<close>

definition pre_save :: "staff \<Rightarrow> staff" where
  "pre_save s =
     (let s1 = (if employmentStatus s \<noteq> Retired then s\<lparr>retirementDate := None\<rparr> else s);
          s2 = (if employmentStatus s1 \<noteq> Dismissed then s1\<lparr>dismissalDate := None\<rparr> else s1);
          s3 = (if employmentStatus s2 \<noteq> OnLeave
                then s2\<lparr>leaveStartDate := None, leaveEndDate := None\<rparr> else s2)
      in s3)"

text \<open>
  \<^verbatim>\<open>save()\<close> of a staff document: validation, then the pre-save hook; the result is the
  document that is written. A rejected save throws; the routes catch it and answer 500.
\<close>

definition save :: "staff \<Rightarrow> failure + staff" where
  "save s = (if fields_valid s \<and> dates_valid s then Inr (pre_save s) else Inl InternalError)"

text \<open>
  The assignments of \<^verbatim>\<open>updateEmploymentStatus(newStatus, date = null)\<close> before it
  saves. \<open>now\<close> is the clock reading that \<^verbatim>\<open>new Date()\<close> takes; \<^verbatim>\<open>date || new Date()\<close>
  keeps a supplied date and reads the clock otherwise. \<open>None\<close> is an argument that
  JavaScript takes as false: \<^verbatim>\<open>null\<close>, \<^verbatim>\<open>undefined\<close> and, among the raw JSON values
  the update route passes on, the number 0 and the empty string.
\<close>

definition effective_date :: "date option \<Rightarrow> date \<Rightarrow> date" where
  "effective_date d now = (case d of Some x \<Rightarrow> x | None \<Rightarrow> now)"

definition assign_status :: "staff \<Rightarrow> employment_status \<Rightarrow> date option \<Rightarrow> date \<Rightarrow> staff" where
  "assign_status s newStatus d now =
     (let s1 = s\<lparr>employmentStatus := newStatus\<rparr>;
          s2 = s1\<lparr>retirementDate := None, dismissalDate := None,
                   leaveStartDate := None, leaveEndDate := None\<rparr>
      in case newStatus of
           Retired \<Rightarrow> s2\<lparr>retirementDate := Some (effective_date d now)\<rparr>
         | Dismissed \<Rightarrow> s2\<lparr>dismissalDate := Some (effective_date d now)\<rparr>
         | OnLeave \<Rightarrow> s2\<lparr>leaveStartDate := Some (effective_date d now)\<rparr>
         | Active \<Rightarrow> s2)"

definition updateEmploymentStatus ::
  "staff \<Rightarrow> employment_status \<Rightarrow> date option \<Rightarrow> date \<Rightarrow> failure + staff" where
  "updateEmploymentStatus s newStatus d now = save (assign_status s newStatus d now)"

text \<open>
  The state of the status dates that the pre-save hook aims at: a date outside the
  group of the current status is cleared. The group of \<open>on_leave\<close> holds both leave
  dates; \<open>active\<close> has no date.
\<close>

definition status_dates_ok :: "staff \<Rightarrow> bool" where
  "status_dates_ok s =
     ((employmentStatus s = Retired \<or> retirementDate s = None) \<and>
      (employmentStatus s = Dismissed \<or> dismissalDate s = None) \<and>
      (employmentStatus s = OnLeave \<or> (leaveStartDate s = None \<and> leaveEndDate s = None)))"


section \<open>The court model\<close>

record address =
  street :: "string option"
  city :: "string option"
  state :: "string option"
  zipCode :: "string option"

record contact =
  phone :: "string option"
  email :: "string option"
  fax :: "string option"

text \<open>
  The court schema. \<open>court_userId\<close> is the \<^verbatim>\<open>userId\<close> that the staff routes read
  from a court and query courts by. The schema of \<^verbatim>\<open>models/Court.js\<close> declares no
  such path, so it is \<open>None\<close> (\<^verbatim>\<open>undefined\<close>) in every court that the routes
  build; the record keeps it so that the routes can be followed on any stored document.
\<close>

record court =
  court_id :: object_id
  court_name :: string
  ctype :: court_type
  location :: "string option"
  circuitCourtId :: "object_id option"
  court_address :: "address option"
  contactInfo :: "contact option"
  isActive :: bool
  description :: "string option"
  court_userId :: "object_id option"

text \<open>
  Modelled from the spec: the user document of \<^verbatim>\<open>models/User.js\<close>, which is not among
  the sources: username, hashed password, role in \<open>{admin, circuit, magisterial}\<close>,
  name, optional circuit court, active flag. \<open>Hashed p\<close> stands for the hash of the
  plain password \<open>p\<close>.
\<close>

datatype stored_password = Hashed string

record user =
  user_id :: object_id
  username :: string
  password :: stored_password
  user_role :: role
  user_name :: string
  user_circuitCourtId :: "object_id option"
  user_isActive :: bool

text \<open>The persistence layer: the stored documents and the next fresh ObjectId.\<close>

record db =
  courts :: "court list"
  staff_members :: "staff list"
  users :: "user list"
  nextId :: object_id

definition findById :: "court list \<Rightarrow> object_id \<Rightarrow> court option" where
  "findById cs i = find (\<lambda>c. court_id c = i) cs"

text \<open>\<^verbatim>\<open>Court.findOne({ userId: req.user.userId, type: 'circuit' })\<close>\<close>

definition findOne_circuit_of :: "court list \<Rightarrow> object_id \<Rightarrow> court option" where
  "findOne_circuit_of cs u = find (\<lambda>c. court_userId c = Some u \<and> ctype c = Circuit) cs"

text \<open>The schema validators of a court, and \<^verbatim>\<open>courtSchema.pre('save')\<close>.\<close>

definition court_valid :: "court \<Rightarrow> bool" where
  "court_valid c =
     (court_name c \<noteq> [] \<and> length (court_name c) \<le> 100 \<and>
      (case location c of None \<Rightarrow> True | Some l \<Rightarrow> length l \<le> 200) \<and>
      (case description c of None \<Rightarrow> True | Some d \<Rightarrow> length d \<le> 500) \<and>
      (ctype c \<noteq> Magisterial \<or> circuitCourtId c \<noteq> None))"

definition court_pre_save :: "court list \<Rightarrow> court \<Rightarrow> bool" where
  "court_pre_save cs c =
     (case circuitCourtId c of
        None \<Rightarrow> True
      | Some p \<Rightarrow>
          (if ctype c = Magisterial
           then (case findById cs p of None \<Rightarrow> False | Some cc \<Rightarrow> ctype cc = Circuit)
           else True))"

fun replace_court :: "court \<Rightarrow> court list \<Rightarrow> court list" where
  "replace_court c [] = []"
| "replace_court c (x # xs) =
     (if court_id x = court_id c then c # xs else x # replace_court c xs)"

text \<open>
  \<^verbatim>\<open>court.save()\<close>: \<open>True\<close> for a new document (inserted), \<open>False\<close> for a loaded
  one (written back in place). A rejected save leaves the store as it is.
\<close>

definition court_save :: "bool \<Rightarrow> court \<Rightarrow> db \<Rightarrow> (failure + court) \<times> db" where
  "court_save is_new c d =
     (if court_valid c \<and> court_pre_save (courts d) c
      then (Inr c,
            if is_new then d\<lparr>courts := courts d @ [c], nextId := Suc (nextId d)\<rparr>
            else d\<lparr>courts := replace_court c (courts d)\<rparr>)
      else (Inl InternalError, d))"


section \<open>The court routes\<close>

text \<open>
  The value of the body key \<^verbatim>\<open>circuitCourtId\<close> as a handler receives it: a string
  that Mongoose casts to an ObjectId (\<open>ObjectIdStr i\<close>, with the id \<open>i\<close> it casts to),
  or any other value (\<open>NotObjectId s\<close>, with its string form \<open>s\<close>). On the latter
  \<^verbatim>\<open>Court.findById\<close> rejects with a cast error.
\<close>

datatype id_param = ObjectIdStr object_id | NotObjectId string

text \<open>
  The JSON body of a court request. A key that is absent is \<open>None\<close>. The keys
  \<open>b_type\<close> and \<open>b_isActive\<close> are keys a client may send although no handler reads
  them.
\<close>

record court_body =
  b_name :: "string option"
  b_location :: "string option"
  b_circuitCourtId :: "id_param option"
  b_address :: "address option"
  b_contactInfo :: "contact option"
  b_description :: "string option"
  b_type :: "court_type option"
  b_isActive :: "bool option"

text \<open>The middleware \<^verbatim>\<open>requireRole(allowedRoles)\<close>; \<open>None\<close> calls \<^verbatim>\<open>next()\<close>.\<close>

definition requireRole :: "role list \<Rightarrow> caller \<Rightarrow> failure option" where
  "requireRole allowedRoles u =
     (if role u \<in> set allowedRoles then None
      else Some (PermissionDenied ''Insufficient permissions''))"

text \<open>
  The validator chains. \<^verbatim>\<open>body('name').trim().isLength({ min: 2 })\<close> reads an absent
  name as the empty string; \<^verbatim>\<open>optional()\<close> skips the chain for an absent key.
\<close>

definition required_name_ok :: "string option \<Rightarrow> bool" where
  "required_name_ok n = (2 \<le> length (trim (case n of None \<Rightarrow> [] | Some x \<Rightarrow> x)))"

definition optional_name_ok :: "string option \<Rightarrow> bool" where
  "optional_name_ok n = (case n of None \<Rightarrow> True | Some x \<Rightarrow> 2 \<le> length (trim x))"

definition location_ok :: "string option \<Rightarrow> bool" where
  "location_ok l = (case l of None \<Rightarrow> True | Some x \<Rightarrow> length (trim x) \<le> 200)"

text \<open>\<^verbatim>\<open>body('circuitCourtId').notEmpty()\<close>\<close>

definition notEmpty :: "id_param option \<Rightarrow> bool" where
  "notEmpty p =
     (case p of
        None \<Rightarrow> False
      | Some (ObjectIdStr i) \<Rightarrow> True
      | Some (NotObjectId x) \<Rightarrow> x \<noteq> [])"

text \<open>
  The cast of the \<^verbatim>\<open>circuitCourtId\<close> path in \<^verbatim>\<open>new Court({...})\<close>: a value that does
  not cast leaves the path unset.
\<close>

definition cast_id :: "id_param option \<Rightarrow> object_id option" where
  "cast_id p =
     (case p of
        None \<Rightarrow> None
      | Some (ObjectIdStr i) \<Rightarrow> Some i
      | Some (NotObjectId x) \<Rightarrow> None)"

text \<open>\<^verbatim>\<open>new Court({...})\<close> of the two creation handlers: the default of \<open>isActive\<close>.\<close>

definition new_court :: "object_id \<Rightarrow> court_type \<Rightarrow> court_body \<Rightarrow> court" where
  "new_court i t b =
     \<lparr>court_id = i,
      court_name = trim (case b_name b of None \<Rightarrow> [] | Some x \<Rightarrow> x),
      ctype = t,
      location = map_option trim (b_location b),
      circuitCourtId = (if t = Magisterial then cast_id (b_circuitCourtId b) else None),
      court_address = b_address b,
      contactInfo = b_contactInfo b,
      isActive = True,
      description = b_description b,
      court_userId = None\<rparr>"

text \<open>\<^verbatim>\<open>POST /circuit\<close>\<close>

definition post_circuit :: "caller \<Rightarrow> court_body \<Rightarrow> db \<Rightarrow> (failure + court) \<times> db" where
  "post_circuit u b d =
     (case requireRole [Admin] u of
        Some e \<Rightarrow> (Inl e, d)
      | None \<Rightarrow>
          if \<not> (required_name_ok (b_name b) \<and> location_ok (b_location b))
          then (Inl (ValidationFailed ''Validation failed''), d)
          else court_save True (new_court (nextId d) Circuit b) d)"

text \<open>
  \<^verbatim>\<open>POST /magisterial\<close>. \<^verbatim>\<open>Court.findById(circuitCourtId)\<close> is called inside the
  \<^verbatim>\<open>try\<close> of the handler: on a value that does not cast to an ObjectId it rejects,
  and the \<^verbatim>\<open>catch\<close> answers status 500.
\<close>

definition post_magisterial :: "caller \<Rightarrow> court_body \<Rightarrow> db \<Rightarrow> (failure + court) \<times> db" where
  "post_magisterial u b d =
     (case requireRole [Admin] u of
        Some e \<Rightarrow> (Inl e, d)
      | None \<Rightarrow>
          if \<not> (required_name_ok (b_name b) \<and> location_ok (b_location b) \<and>
                 notEmpty (b_circuitCourtId b))
          then (Inl (ValidationFailed ''Validation failed''), d)
          else
            (case the (b_circuitCourtId b) of
               NotObjectId x \<Rightarrow> (Inl InternalError, d)
             | ObjectIdStr i \<Rightarrow>
                 (case findById (courts d) i of
                    None \<Rightarrow> (Inl (ValidationFailed ''Invalid circuit court''), d)
                  | Some cc \<Rightarrow>
                      if ctype cc \<noteq> Circuit
                      then (Inl (ValidationFailed ''Invalid circuit court''), d)
                      else court_save True (new_court (nextId d) Magisterial b) d)))"

text \<open>
  \<^verbatim>\<open>PUT /:id\<close> of a court. A JavaScript \<^verbatim>\<open>if (x)\<close> on a string holds for a
  non-empty one, on an object for a present one.
\<close>

definition truthy_str :: "string option \<Rightarrow> bool" where
  "truthy_str x = (case x of None \<Rightarrow> False | Some v \<Rightarrow> v \<noteq> [])"

definition assign_court_fields :: "court_body \<Rightarrow> court \<Rightarrow> court" where
  "assign_court_fields b c =
     (let n = map_option trim (b_name b);
          c1 = (if truthy_str n then c\<lparr>court_name := trim (the n)\<rparr> else c);
          c2 = (if b_address b \<noteq> None then c1\<lparr>court_address := b_address b\<rparr> else c1);
          c3 = (if b_contactInfo b \<noteq> None then c2\<lparr>contactInfo := b_contactInfo b\<rparr> else c2);
          c4 = (if truthy_str (b_description b) then c3\<lparr>description := b_description b\<rparr> else c3)
      in c4)"

definition put_court :: "caller \<Rightarrow> object_id \<Rightarrow> court_body \<Rightarrow> db \<Rightarrow> (failure + court) \<times> db" where
  "put_court u i b d =
     (if \<not> optional_name_ok (b_name b)
      then (Inl (ValidationFailed ''Validation failed''), d)
      else
        (case findById (courts d) i of
           None \<Rightarrow> (Inl (NotFound ''Court not found''), d)
         | Some c \<Rightarrow>
             if role u \<noteq> Admin then (Inl (PermissionDenied ''Access denied''), d)
             else court_save False (assign_court_fields b c) d))"


section \<open>The staff routes\<close>

text \<open>
  The JSON body of a staff request. \<open>None\<close> is an absent key; for the date, salary
  and notes keys \<open>Some None\<close> is the JSON value \<^verbatim>\<open>null\<close>.
\<close>

record staff_body =
  sb_name :: "string option"
  sb_position :: "string option"
  sb_courtType :: "court_type option"
  sb_courtId :: "object_id option"
  sb_employmentStatus :: "employment_status option"
  sb_statusDate :: "date option"
  sb_hireDate :: "date option option"
  sb_retirementDate :: "date option option"
  sb_dismissalDate :: "date option option"
  sb_leaveStartDate :: "date option option"
  sb_leaveEndDate :: "date option option"
  sb_salary :: "int option option"
  sb_notes :: "string option option"

definition find_staff :: "staff list \<Rightarrow> object_id \<Rightarrow> staff option" where
  "find_staff ss i = find (\<lambda>s. staff_id s = i) ss"

fun replace_staff :: "staff \<Rightarrow> staff list \<Rightarrow> staff list" where
  "replace_staff s [] = []"
| "replace_staff s (x # xs) =
     (if staff_id x = staff_id s then s # xs else x # replace_staff s xs)"

text \<open>\<^verbatim>\<open>Staff.getByCourt(courtId)\<close>: the staff of a court, sorted by name.\<close>

definition getByCourt :: "staff list \<Rightarrow> object_id \<Rightarrow> staff list" where
  "getByCourt ss i = sort_key name (filter (\<lambda>s. courtId s = i) ss)"

text \<open>
  The permission check that the staff handlers repeat. After the owner comparison has
  failed, a circuit caller is let through when the target court's \<open>circuitCourtId\<close>
  is the id of the circuit court found for the caller; anyone else is refused.
\<close>

definition circuit_branch :: "caller \<Rightarrow> court \<Rightarrow> court list \<Rightarrow> failure option" where
  "circuit_branch u c cs =
     (if role u = CircuitUser
      then (case findOne_circuit_of cs (userId u) of
              None \<Rightarrow> Some (PermissionDenied ''Access denied'')
            | Some uc \<Rightarrow>
                if circuitCourtId c \<noteq> Some (court_id uc)
                then Some (PermissionDenied ''Access denied'') else None)
      else Some (PermissionDenied ''Access denied''))"

text \<open>
  The check of \<^verbatim>\<open>GET /court/:courtId\<close> and \<^verbatim>\<open>POST /\<close>:
  \<^verbatim>\<open>court.userId.toString() !== req.user.userId\<close>. On a court without \<^verbatim>\<open>userId\<close> the
  call of \<^verbatim>\<open>toString\<close> throws a TypeError, which the handler's \<^verbatim>\<open>catch\<close> turns
  into status 500.
\<close>

definition access_strict :: "caller \<Rightarrow> court \<Rightarrow> court list \<Rightarrow> failure option" where
  "access_strict u c cs =
     (if role u \<noteq> Admin
      then (case court_userId c of
              None \<Rightarrow> Some InternalError
            | Some owner \<Rightarrow> if owner \<noteq> userId u then circuit_branch u c cs else None)
      else None)"

text \<open>
  The check of \<^verbatim>\<open>GET /:id\<close> and \<^verbatim>\<open>PUT /:id\<close>:
  \<^verbatim>\<open>court.userId?.toString() !== req.user.userId\<close> on the populated court of the staff
  member. A staff member whose court does not resolve is populated with \<^verbatim>\<open>null\<close>,
  and reading \<^verbatim>\<open>userId\<close> of it throws.
\<close>

definition access_lenient :: "caller \<Rightarrow> court option \<Rightarrow> court list \<Rightarrow> failure option" where
  "access_lenient u co cs =
     (if role u \<noteq> Admin
      then (case co of
              None \<Rightarrow> Some InternalError
            | Some c \<Rightarrow>
                if court_userId c \<noteq> Some (userId u) then circuit_branch u c cs else None)
      else None)"

text \<open>\<^verbatim>\<open>GET /court/:courtId\<close>\<close>

definition get_staff_by_court :: "caller \<Rightarrow> object_id \<Rightarrow> db \<Rightarrow> failure + staff list" where
  "get_staff_by_court u i d =
     (case findById (courts d) i of
        None \<Rightarrow> Inl (NotFound ''Court not found'')
      | Some c \<Rightarrow>
          (case access_strict u c (courts d) of
             Some e \<Rightarrow> Inl e
           | None \<Rightarrow> Inr (getByCourt (staff_members d) i)))"

text \<open>
  \<^verbatim>\<open>GET /:id\<close>. The court is populated with the selection
  \<^verbatim>\<open>'name type circuitCourtId'\<close>, so the paths outside it are undefined in it.
\<close>

definition populate_selected :: "court \<Rightarrow> court" where
  "populate_selected c =
     c\<lparr>location := None, court_address := None, contactInfo := None,
       description := None, court_userId := None\<rparr>"

definition get_staff_by_id :: "caller \<Rightarrow> object_id \<Rightarrow> db \<Rightarrow> failure + staff" where
  "get_staff_by_id u i d =
     (case find_staff (staff_members d) i of
        None \<Rightarrow> Inl (NotFound ''Staff member not found'')
      | Some s \<Rightarrow>
          (case access_lenient u (map_option populate_selected (findById (courts d) (courtId s)))
                  (courts d) of
             Some e \<Rightarrow> Inl e
           | None \<Rightarrow> Inr s))"

text \<open>
  \<^verbatim>\<open>PUT /:id\<close>. The \<^verbatim>\<open>trim\<close> sanitizers rewrite the body; the loop over
  \<^verbatim>\<open>Object.keys(updateData)\<close> then assigns every key except
  \<^verbatim>\<open>employmentStatus\<close> and \<^verbatim>\<open>statusDate\<close>.
\<close>

definition sanitize_staff_body :: "staff_body \<Rightarrow> staff_body" where
  "sanitize_staff_body b =
     b\<lparr>sb_name := map_option trim (sb_name b), sb_position := map_option trim (sb_position b)\<rparr>"

definition assign_staff_fields :: "staff_body \<Rightarrow> staff \<Rightarrow> staff" where
  "assign_staff_fields b s =
     s\<lparr>name := (case sb_name b of None \<Rightarrow> name s | Some v \<Rightarrow> trim v),
       position := (case sb_position b of None \<Rightarrow> position s | Some v \<Rightarrow> trim v),
       courtType := (case sb_courtType b of None \<Rightarrow> courtType s | Some v \<Rightarrow> v),
       courtId := (case sb_courtId b of None \<Rightarrow> courtId s | Some v \<Rightarrow> v),
       hireDate := (case sb_hireDate b of None \<Rightarrow> hireDate s | Some v \<Rightarrow> v),
       retirementDate := (case sb_retirementDate b of None \<Rightarrow> retirementDate s | Some v \<Rightarrow> v),
       dismissalDate := (case sb_dismissalDate b of None \<Rightarrow> dismissalDate s | Some v \<Rightarrow> v),
       leaveStartDate := (case sb_leaveStartDate b of None \<Rightarrow> leaveStartDate s | Some v \<Rightarrow> v),
       leaveEndDate := (case sb_leaveEndDate b of None \<Rightarrow> leaveEndDate s | Some v \<Rightarrow> v),
       salary := (case sb_salary b of None \<Rightarrow> salary s | Some v \<Rightarrow> v),
       staff_notes := (case sb_notes b of None \<Rightarrow> staff_notes s | Some v \<Rightarrow> v)\<rparr>"

definition status_changes :: "staff_body \<Rightarrow> staff \<Rightarrow> bool" where
  "status_changes b s =
     (case sb_employmentStatus b of None \<Rightarrow> False | Some v \<Rightarrow> v \<noteq> employmentStatus s)"

definition put_staff ::
  "caller \<Rightarrow> object_id \<Rightarrow> staff_body \<Rightarrow> date \<Rightarrow> db \<Rightarrow> (failure + staff) \<times> db" where
  "put_staff u i b now d =
     (if \<not> (optional_name_ok (sb_name b) \<and> optional_name_ok (sb_position b))
      then (Inl (ValidationFailed ''Validation failed''), d)
      else
        (case find_staff (staff_members d) i of
           None \<Rightarrow> (Inl (NotFound ''Staff member not found''), d)
         | Some s \<Rightarrow>
             (case access_lenient u (findById (courts d) (courtId s)) (courts d) of
                Some e \<Rightarrow> (Inl e, d)
              | None \<Rightarrow>
                  (case (if status_changes b s
                         then updateEmploymentStatus s (the (sb_employmentStatus b))
                                (sb_statusDate b) now
                         else save (assign_staff_fields (sanitize_staff_body b) s)) of
                     Inl e \<Rightarrow> (Inl InternalError, d)
                   | Inr s' \<Rightarrow>
                       (Inr s', d\<lparr>staff_members := replace_staff s' (staff_members d)\<rparr>)))))"

text \<open>
  \<^verbatim>\<open>POST /\<close> of a staff member. \<^verbatim>\<open>new Staff({...staffData, courtId, courtType})\<close>
  takes every schema path of the body and applies the defaults of \<open>employmentStatus\<close>
  and \<open>hireDate\<close>.
\<close>

definition join_opt :: "'a option option \<Rightarrow> 'a option" where
  "join_opt x = (case x of None \<Rightarrow> None | Some v \<Rightarrow> v)"

definition new_staff :: "object_id \<Rightarrow> staff_body \<Rightarrow> date \<Rightarrow> staff" where
  "new_staff i b now =
     \<lparr>staff_id = i,
      name = trim (case sb_name b of None \<Rightarrow> [] | Some v \<Rightarrow> v),
      position = trim (case sb_position b of None \<Rightarrow> [] | Some v \<Rightarrow> v),
      courtType = the (sb_courtType b),
      courtId = the (sb_courtId b),
      employmentStatus = (case sb_employmentStatus b of None \<Rightarrow> Active | Some v \<Rightarrow> v),
      hireDate = (case sb_hireDate b of None \<Rightarrow> Some now | Some v \<Rightarrow> v),
      retirementDate = join_opt (sb_retirementDate b),
      dismissalDate = join_opt (sb_dismissalDate b),
      leaveStartDate = join_opt (sb_leaveStartDate b),
      leaveEndDate = join_opt (sb_leaveEndDate b),
      salary = join_opt (sb_salary b),
      staff_notes = join_opt (sb_notes b)\<rparr>"

definition post_staff :: "caller \<Rightarrow> staff_body \<Rightarrow> date \<Rightarrow> db \<Rightarrow> (failure + staff) \<times> db" where
  "post_staff u b now d =
     (if \<not> (required_name_ok (sb_name b) \<and> required_name_ok (sb_position b) \<and>
             sb_courtId b \<noteq> None \<and> sb_courtType b \<noteq> None)
      then (Inl (ValidationFailed ''Validation failed''), d)
      else
        (case findById (courts d) (the (sb_courtId b)) of
           None \<Rightarrow> (Inl (ValidationFailed ''Invalid court''), d)
         | Some c \<Rightarrow>
             if ctype c \<noteq> the (sb_courtType b)
             then (Inl (ValidationFailed ''Invalid court''), d)
             else
               (case access_strict u c (courts d) of
                  Some e \<Rightarrow> (Inl e, d)
                | None \<Rightarrow>
                    (case save (new_staff (nextId d) (sanitize_staff_body b) now) of
                       Inl e \<Rightarrow> (Inl InternalError, d)
                     | Inr s' \<Rightarrow>
                         (Inr s', d\<lparr>staff_members := staff_members d @ [s'],
                                     nextId := Suc (nextId d)\<rparr>)))))"


section \<open>The user routes\<close>

record user_body =
  ub_username :: "string option"
  ub_password :: "string option"
  ub_name :: "string option"
  ub_role :: "string option"
  ub_circuitCourtId :: "object_id option"

text \<open>\<^verbatim>\<open>isAlphanumeric()\<close>: one or more of the characters 0-9, A-Z, a-z.\<close>

definition is_alnum :: "char \<Rightarrow> bool" where
  "is_alnum c =
     (let n = (of_char c :: nat)
      in (48 \<le> n \<and> n \<le> 57) \<or> (65 \<le> n \<and> n \<le> 90) \<or> (97 \<le> n \<and> n \<le> 122))"

definition isAlphanumeric :: "string \<Rightarrow> bool" where
  "isAlphanumeric s = (s \<noteq> [] \<and> list_all is_alnum s)"

definition or_empty :: "string option \<Rightarrow> string" where
  "or_empty x = (case x of None \<Rightarrow> [] | Some v \<Rightarrow> v)"

text \<open>The validator \<^verbatim>\<open>body('role').isIn(['admin'])\<close> of \<^verbatim>\<open>POST /\<close>.\<close>

definition role_ok :: "string option \<Rightarrow> bool" where
  "role_ok r = (case r of None \<Rightarrow> False | Some v \<Rightarrow> v \<in> set [''admin''])"

definition user_body_ok :: "user_body \<Rightarrow> bool" where
  "user_body_ok b =
     (3 \<le> length (trim (or_empty (ub_username b))) \<and>
      isAlphanumeric (trim (or_empty (ub_username b))) \<and>
      6 \<le> length (or_empty (ub_password b)) \<and>
      2 \<le> length (trim (or_empty (ub_name b))) \<and>
      role_ok (ub_role b))"

text \<open>
  Modelled from the spec: \<^verbatim>\<open>User.findByUsername\<close> and the role enumeration of
  \<^verbatim>\<open>models/User.js\<close>, which is not among the sources. The spec has usernames unique
  without regard to case and the roles \<open>admin\<close>, \<open>circuit\<close>, \<open>magisterial\<close>.
\<close>

definition to_lower :: "char \<Rightarrow> char" where
  "to_lower c =
     (let n = (of_char c :: nat) in if 65 \<le> n \<and> n \<le> 90 then char_of (n + 32) else c)"

definition findByUsername :: "user list \<Rightarrow> string \<Rightarrow> user option" where
  "findByUsername us n = find (\<lambda>x. map to_lower (username x) = map to_lower n) us"

definition parse_role :: "string \<Rightarrow> role option" where
  "parse_role r =
     (if r = ''admin'' then Some Admin
      else if r = ''circuit'' then Some CircuitUser
      else if r = ''magisterial'' then Some MagisterialUser
      else None)"

text \<open>\<^verbatim>\<open>POST /\<close> of a user.\<close>

definition post_user :: "caller \<Rightarrow> user_body \<Rightarrow> db \<Rightarrow> (failure + user) \<times> db" where
  "post_user u b d =
     (case requireRole [Admin] u of
        Some e \<Rightarrow> (Inl e, d)
      | None \<Rightarrow>
          if \<not> user_body_ok b
          then (Inl (ValidationFailed ''Validation failed''), d)
          else if findByUsername (users d) (trim (or_empty (ub_username b))) \<noteq> None
          then (Inl (ValidationFailed ''Username already exists''), d)
          else
            (case parse_role (or_empty (ub_role b)) of
               None \<Rightarrow> (Inl InternalError, d)
             | Some r \<Rightarrow>
                 (let x = \<lparr>user_id = nextId d,
                           username = trim (or_empty (ub_username b)),
                           password = Hashed (or_empty (ub_password b)),
                           user_role = r,
                           user_name = trim (or_empty (ub_name b)),
                           user_circuitCourtId =
                             (if or_empty (ub_role b) = ''magisterial''
                              then ub_circuitCourtId b else None),
                           user_isActive = True\<rparr>
                  in (Inr x, d\<lparr>users := users d @ [x], nextId := Suc (nextId d)\<rparr>))))"


section \<open>Predicates of the properties and example data\<close>

text \<open>
  The number of status-date groups that hold a date: retirement, dismissal, leave
  (start or end).
\<close>

definition populated_groups :: "staff \<Rightarrow> nat" where
  "populated_groups s =
     length (filter (\<lambda>x. x)
       [retirementDate s \<noteq> None, dismissalDate s \<noteq> None,
        leaveStartDate s \<noteq> None \<or> leaveEndDate s \<noteq> None])"



text \<open>A court with the four paths blanked that \<^verbatim>\<open>PUT /:id\<close> assigns.\<close>

definition court_frame :: "court \<Rightarrow> court" where
  "court_frame c =
     c\<lparr>court_name := [], court_address := None, contactInfo := None, description := None\<rparr>"

text \<open>
  Example data: an empty store, callers of the three roles, and the store that the
  administrator reaches by creating two circuit courts (ids 1 and 2), a magisterial
  court under each (ids 3 and 4), and one staff member in court 1 and one in court 3
  (ids 5 and 6), all through the routes.
\<close>

definition empty_db :: db where
  "empty_db = \<lparr>courts = [], staff_members = [], users = [], nextId = 1\<rparr>"

definition admin_caller :: caller where
  "admin_caller = \<lparr>userId = 100, role = Admin, callerCircuitCourtId = None\<rparr>"

definition circuit_caller :: caller where
  "circuit_caller = \<lparr>userId = 101, role = CircuitUser, callerCircuitCourtId = Some 1\<rparr>"

definition magisterial_caller :: caller where
  "magisterial_caller = \<lparr>userId = 102, role = MagisterialUser, callerCircuitCourtId = Some 1\<rparr>"

definition named_court_body :: "string \<Rightarrow> object_id option \<Rightarrow> court_body" where
  "named_court_body n p =
     \<lparr>b_name = Some n, b_location = None, b_circuitCourtId = map_option ObjectIdStr p,
      b_address = None,
      b_contactInfo = None, b_description = None, b_type = None, b_isActive = None\<rparr>"

definition named_staff_body :: "string \<Rightarrow> string \<Rightarrow> court_type \<Rightarrow> object_id \<Rightarrow> staff_body" where
  "named_staff_body n p t c =
     \<lparr>sb_name = Some n, sb_position = Some p, sb_courtType = Some t, sb_courtId = Some c,
      sb_employmentStatus = None, sb_statusDate = None, sb_hireDate = None,
      sb_retirementDate = None, sb_dismissalDate = None, sb_leaveStartDate = None,
      sb_leaveEndDate = None, sb_salary = None, sb_notes = None\<rparr>"

definition courts_db :: db where
  "courts_db =
     snd (post_magisterial admin_caller (named_court_body ''East Magisterial Court'' (Some 2))
       (snd (post_magisterial admin_caller (named_court_body ''Central Magisterial Court'' (Some 1))
         (snd (post_circuit admin_caller (named_court_body ''Second Circuit Court'' None)
           (snd (post_circuit admin_caller (named_court_body ''First Circuit Court'' None)
             empty_db)))))))"

definition example_db :: db where
  "example_db =
     snd (post_staff admin_caller (named_staff_body ''Lisa Davis'' ''Magistrate Clerk'' Magisterial 3) 1707130800000
       (snd (post_staff admin_caller (named_staff_body ''John Smith'' ''Court Clerk'' Circuit 1) 1705312800000
         courts_db)))"

definition example_court :: "object_id \<Rightarrow> string \<Rightarrow> court_type \<Rightarrow> object_id option \<Rightarrow> court" where
  "example_court i n t p =
     \<lparr>court_id = i, court_name = n, ctype = t, location = None, circuitCourtId = p,
      court_address = None, contactInfo = None, isActive = True, description = None,
      court_userId = None\<rparr>"

definition example_staff :: "object_id \<Rightarrow> string \<Rightarrow> string \<Rightarrow> court_type \<Rightarrow> object_id \<Rightarrow> date \<Rightarrow> staff" where
  "example_staff i n p t c h =
     \<lparr>staff_id = i, name = n, position = p, courtType = t, courtId = c,
      employmentStatus = Active, hireDate = Some h, retirementDate = None,
      dismissalDate = None, leaveStartDate = None, leaveEndDate = None,
      salary = None, staff_notes = None\<rparr>"


definition empty_staff_body :: staff_body where
  "empty_staff_body =
     \<lparr>sb_name = None, sb_position = None, sb_courtType = None, sb_courtId = None,
      sb_employmentStatus = None, sb_statusDate = None, sb_hireDate = None,
      sb_retirementDate = None, sb_dismissalDate = None, sb_leaveStartDate = None,
      sb_leaveEndDate = None, sb_salary = None, sb_notes = None\<rparr>"

text \<open>The example store after staff member 5 has retired on 2024-03-01.\<close>

definition retired_db :: db where
  "retired_db =
     snd (put_staff admin_caller 5
            (empty_staff_body\<lparr>sb_employmentStatus := Some Retired,
                               sb_statusDate := Some 1709251200000\<rparr>)
            1709999999999 example_db)"

definition clerk_body :: "string \<Rightarrow> user_body" where
  "clerk_body r =
     \<lparr>ub_username = Some ''clerk1'', ub_password = Some ''secret1'',
      ub_name = Some ''Clerk One'', ub_role = Some r, ub_circuitCourtId = None\<rparr>"


section \<open>Facts about the staff model\<close>

lemma pre_save_status_dates_ok: "status_dates_ok (pre_save s)"
  by (simp add: pre_save_def status_dates_ok_def Let_def)

lemma fields_valid_assign_status: "fields_valid (assign_status s v d now) = fields_valid s"
  by (cases v) (simp_all add: assign_status_def fields_valid_def Let_def)

lemma dates_valid_assign_status: "dates_valid (assign_status s v d now)"
  by (cases v) (simp_all add: assign_status_def dates_valid_def Let_def)

lemma pre_save_assign_status: "pre_save (assign_status s v d now) = assign_status s v d now"
  by (cases v) (simp_all add: assign_status_def pre_save_def Let_def)

lemma assign_status_fields:
  "assign_status s v d now =
     s\<lparr>employmentStatus := v,
       retirementDate := (if v = Retired then Some (effective_date d now) else None),
       dismissalDate := (if v = Dismissed then Some (effective_date d now) else None),
       leaveStartDate := (if v = OnLeave then Some (effective_date d now) else None),
       leaveEndDate := None\<rparr>"
  by (cases v) (simp_all add: assign_status_def Let_def)

lemma updateEmploymentStatus_eq:
  "updateEmploymentStatus s v d now =
     (if fields_valid s then Inr (assign_status s v d now) else Inl InternalError)"
  unfolding updateEmploymentStatus_def save_def
  by (simp add: fields_valid_assign_status dates_valid_assign_status pre_save_assign_status)

lemma assign_status_twice:
  "assign_status (assign_status s v (Some dt) n1) v (Some dt) n2 = assign_status s v (Some dt) n1"
  by (cases v) (simp_all add: assign_status_def Let_def effective_date_def)

lemma save_Inr: "save s = Inr s' \<Longrightarrow> s' = pre_save s"
  by (simp add: save_def split: if_splits)

lemma populated_groups_le_1: "status_dates_ok s \<Longrightarrow> populated_groups s \<le> 1"
  by (cases "employmentStatus s") (auto simp add: status_dates_ok_def populated_groups_def)

text \<open>
  The seed data of \<^verbatim>\<open>server.js\<close> are written with \<^verbatim>\<open>insertMany\<close>, which runs no save
  hook; they are active staff without status dates.
\<close>

lemma seed_staff_status_dates_ok: "status_dates_ok (example_staff i n p t c h)"
  by (simp add: status_dates_ok_def example_staff_def)

lemma put_staff_Inr:
  assumes "fst (put_staff u i b now d) = Inr s'"
  shows "\<exists>x. save x = Inr s'"
  using assms
  by (auto simp add: put_staff_def updateEmploymentStatus_def
        split: if_splits option.splits sum.splits)

lemma post_staff_Inr:
  assumes "fst (post_staff u b now d) = Inr s'"
  shows "\<exists>x. save x = Inr s'"
  using assms
  by (auto simp add: post_staff_def split: if_splits option.splits sum.splits)


section \<open>The employment-status transition\<close>

text \<open>
  Claim C3. For every staff record, every new status and every optional date, the
  transition \<^verbatim>\<open>updateEmploymentStatus\<close> writes the record whose status is the new
  status and whose four status dates are all cleared except the one that belongs to the
  new status (retired: \<open>retirementDate\<close>, dismissed: \<open>dismissalDate\<close>, on leave:
  \<open>leaveStartDate\<close>), which holds the supplied date, or the clock reading when no date
  is supplied. For \<open>active\<close> no date is set, and \<open>leaveEndDate\<close> is never set. The
  dates the record held before do not appear in the result. The save is rejected only
  when a path outside the status dates is invalid.
\<close>

theorem transition_clears_then_sets_one:
  "updateEmploymentStatus s v d now =
     (if fields_valid s
      then Inr (s\<lparr>employmentStatus := v,
                  retirementDate :=
                    (if v = Retired then Some (case d of Some x \<Rightarrow> x | None \<Rightarrow> now) else None),
                  dismissalDate :=
                    (if v = Dismissed then Some (case d of Some x \<Rightarrow> x | None \<Rightarrow> now) else None),
                  leaveStartDate :=
                    (if v = OnLeave then Some (case d of Some x \<Rightarrow> x | None \<Rightarrow> now) else None),
                  leaveEndDate := None\<rparr>)
      else Inl InternalError)"
  by (simp add: updateEmploymentStatus_eq) (simp add: assign_status_fields effective_date_def)

text \<open>
  The scenario of the specification: an active staff member retires on 2024-03-01
  (1709251200000), then goes on leave with no date at clock reading 1710000000000.
\<close>

theorem transition_clears_then_sets_one_witness:
  "updateEmploymentStatus (example_staff 5 ''John Smith'' ''Court Clerk'' Circuit 1 1705312800000)
       Retired (Some 1709251200000) 1709999999999 =
     Inr ((example_staff 5 ''John Smith'' ''Court Clerk'' Circuit 1 1705312800000)
            \<lparr>employmentStatus := Retired, retirementDate := Some 1709251200000\<rparr>) \<and>
   updateEmploymentStatus
       ((example_staff 5 ''John Smith'' ''Court Clerk'' Circuit 1 1705312800000)
            \<lparr>employmentStatus := Retired, retirementDate := Some 1709251200000\<rparr>)
       OnLeave None 1710000000000 =
     Inr ((example_staff 5 ''John Smith'' ''Court Clerk'' Circuit 1 1705312800000)
            \<lparr>employmentStatus := OnLeave, leaveStartDate := Some 1710000000000\<rparr>)"
  using transition_clears_then_sets_one
          [of "example_staff 5 ''John Smith'' ''Court Clerk'' Circuit 1 1705312800000"
              Retired "Some 1709251200000" 1709999999999]
        transition_clears_then_sets_one
          [of "(example_staff 5 ''John Smith'' ''Court Clerk'' Circuit 1 1705312800000)
                 \<lparr>employmentStatus := Retired, retirementDate := Some 1709251200000\<rparr>"
              OnLeave None 1710000000000]
  by (simp add: example_staff_def fields_valid_def)

text \<open>
  Claim C7. Applying the transition to a status with a fixed supplied date, and applying
  it again to the result with the same status and date, writes the same record the
  second time as the first: the same status and the same four status dates (the whole
  record is the same). The clock readings of the two calls may differ.
\<close>

theorem transition_idempotent:
  assumes "updateEmploymentStatus s v (Some dt) n1 = Inr r"
  shows "updateEmploymentStatus r v (Some dt) n2 = Inr r"
proof -
  from assms have ok: "fields_valid s" and r: "r = assign_status s v (Some dt) n1"
    by (auto simp add: updateEmploymentStatus_eq split: if_splits)
  have "fields_valid r"
    using ok r by (simp add: fields_valid_assign_status)
  then show ?thesis
    by (simp add: updateEmploymentStatus_eq r assign_status_twice)
qed

theorem transition_idempotent_witness:
  "updateEmploymentStatus (example_staff 5 ''John Smith'' ''Court Clerk'' Circuit 1 1705312800000)
       Dismissed (Some 1709251200000) 1709999999999 =
     Inr ((example_staff 5 ''John Smith'' ''Court Clerk'' Circuit 1 1705312800000)
            \<lparr>employmentStatus := Dismissed, dismissalDate := Some 1709251200000\<rparr>) \<and>
   updateEmploymentStatus
       ((example_staff 5 ''John Smith'' ''Court Clerk'' Circuit 1 1705312800000)
            \<lparr>employmentStatus := Dismissed, dismissalDate := Some 1709251200000\<rparr>)
       Dismissed (Some 1709251200000) 1710000000000 =
     Inr ((example_staff 5 ''John Smith'' ''Court Clerk'' Circuit 1 1705312800000)
            \<lparr>employmentStatus := Dismissed, dismissalDate := Some 1709251200000\<rparr>)"
proof -
  have first:
    "updateEmploymentStatus (example_staff 5 ''John Smith'' ''Court Clerk'' Circuit 1 1705312800000)
       Dismissed (Some 1709251200000) 1709999999999 =
     Inr ((example_staff 5 ''John Smith'' ''Court Clerk'' Circuit 1 1705312800000)
            \<lparr>employmentStatus := Dismissed, dismissalDate := Some 1709251200000\<rparr>)"
    by (simp add: updateEmploymentStatus_eq assign_status_fields effective_date_def
          example_staff_def fields_valid_def)
  from first transition_idempotent [OF first, of 1710000000000] show ?thesis
    by simp
qed


section \<open>The status dates of a saved record\<close>

text \<open>
  Claim C4. A staff record that completes a save, on any write path (a plain
  \<^verbatim>\<open>save()\<close>, the status transition, the update route with its direct field writes,
  the creation route), holds no status date outside the group of its employment status:
  \<open>retirementDate\<close> only when retired, \<open>dismissalDate\<close> only when dismissed, the
  two leave dates only when on leave. So at most one of the three groups is populated.
\<close>

theorem saved_record_holds_only_matching_dates:
  assumes "save s = Inr s' \<or>
           updateEmploymentStatus s v dt now = Inr s' \<or>
           fst (put_staff u i b now d) = Inr s' \<or>
           fst (post_staff u b now d) = Inr s'"
  shows "status_dates_ok s' \<and> populated_groups s' \<le> 1"
proof -
  from assms have "\<exists>x. save x = Inr s'"
    using put_staff_Inr post_staff_Inr
    by (auto simp add: updateEmploymentStatus_def)
  then obtain x where "s' = pre_save x"
    using save_Inr by blast
  then have "status_dates_ok s'"
    by (simp add: pre_save_status_dates_ok)
  with populated_groups_le_1 [of s'] show ?thesis
    by simp
qed


text \<open>
  On the direct-update path: the administrator writes a retirement date and a leave end
  date into the active staff member 5; the saved record holds neither.
\<close>

theorem saved_record_holds_only_matching_dates_witness:
  "fst (put_staff admin_caller 5
          (empty_staff_body\<lparr>sb_retirementDate := Some (Some 1709251200000),
                             sb_leaveEndDate := Some (Some 1709251200000)\<rparr>)
          1710000000000 example_db) =
     Inr (example_staff 5 ''John Smith'' ''Court Clerk'' Circuit 1 1705312800000) \<and>
   status_dates_ok (example_staff 5 ''John Smith'' ''Court Clerk'' Circuit 1 1705312800000) \<and>
   populated_groups (example_staff 5 ''John Smith'' ''Court Clerk'' Circuit 1 1705312800000) \<le> 1"
proof -
  have h:
    "fst (put_staff admin_caller 5
            (empty_staff_body\<lparr>sb_retirementDate := Some (Some 1709251200000),
                               sb_leaveEndDate := Some (Some 1709251200000)\<rparr>)
            1710000000000 example_db) =
       Inr (example_staff 5 ''John Smith'' ''Court Clerk'' Circuit 1 1705312800000)"
    by code_simp
  have "status_dates_ok (example_staff 5 ''John Smith'' ''Court Clerk'' Circuit 1 1705312800000) \<and>
        populated_groups (example_staff 5 ''John Smith'' ''Court Clerk'' Circuit 1 1705312800000) \<le> 1"
    by (rule saved_record_holds_only_matching_dates
              [where s = "example_staff 5 ''John Smith'' ''Court Clerk'' Circuit 1 1705312800000"
                 and v = Active and dt = None,
               OF disjI2 [OF disjI2 [OF disjI1 [OF h]]]])
  with h show ?thesis by simp
qed

text \<open>
  The two leave dates form one group: a record on leave keeps both through a save, so
  two of the four fields can be populated at once.
\<close>

lemma on_leave_keeps_both_leave_dates:
  "save ((example_staff 5 ''John Smith'' ''Court Clerk'' Circuit 1 1705312800000)
           \<lparr>employmentStatus := OnLeave, retirementDate := Some 1700000000000,
             leaveStartDate := Some 1709251200000, leaveEndDate := Some 1711929600000\<rparr>) =
     Inr ((example_staff 5 ''John Smith'' ''Court Clerk'' Circuit 1 1705312800000)
           \<lparr>employmentStatus := OnLeave,
             leaveStartDate := Some 1709251200000, leaveEndDate := Some 1711929600000\<rparr>)"
  by code_simp



section \<open>Creation of a magisterial court\<close>





section \<open>Update of a court\<close>

lemma findById_court_id: "findById cs i = Some c \<Longrightarrow> court_id c = i"
  by (induction cs) (auto simp add: findById_def split: if_splits)

lemma court_frame_court_id: "court_frame c' = court_frame c \<Longrightarrow> court_id c' = court_id c"
proof -
  assume "court_frame c' = court_frame c"
  then have "court_id (court_frame c') = court_id (court_frame c)"
    by simp
  then show ?thesis
    by (simp add: court_frame_def)
qed

lemma replace_court_frame:
  assumes "findById cs i = Some c" and "court_frame c' = court_frame c"
  shows "map court_frame (replace_court c' cs) = map court_frame cs"
  using assms
proof (induction cs)
  case Nil
  then show ?case by simp
next
  case (Cons x xs)
  have ids: "court_id c' = i"
    using Cons.prems findById_court_id court_frame_court_id by metis
  show ?case
  proof (cases "court_id x = i")
    case True
    with Cons.prems have "c = x"
      by (simp add: findById_def)
    with True ids Cons.prems show ?thesis
      by simp
  next
    case False
    with Cons.prems have "findById xs i = Some c"
      by (simp add: findById_def)
    with False ids Cons show ?thesis
      by simp
  qed
qed

lemma assign_court_fields_frame: "court_frame (assign_court_fields b c) = court_frame c"
  by (simp add: assign_court_fields_def court_frame_def Let_def)

lemma put_court_frame:
  "map court_frame (courts (snd (put_court u i b d))) = map court_frame (courts d)"
  by (auto simp add: put_court_def court_save_def replace_court_frame
        assign_court_fields_frame split: option.splits)

lemma put_court_rest:
  "staff_members (snd (put_court u i b d)) = staff_members d \<and>
   users (snd (put_court u i b d)) = users d \<and>
   nextId (snd (put_court u i b d)) = nextId d"
  by (auto simp add: put_court_def court_save_def split: option.splits)

lemma frame_projections:
  "ctype c = ctype (court_frame c)"
  "circuitCourtId c = circuitCourtId (court_frame c)"
  "isActive c = isActive (court_frame c)"
  "court_id c = court_id (court_frame c)"
  "location c = location (court_frame c)"
  by (simp_all add: court_frame_def)

lemma map_through_frame:
  assumes "map court_frame cs' = map court_frame cs"
  shows "map ctype cs' = map ctype cs"
    and "map circuitCourtId cs' = map circuitCourtId cs"
    and "map isActive cs' = map isActive cs"
    and "map court_id cs' = map court_id cs"
    and "map location cs' = map location cs"
proof -
  have "map (ctype \<circ> court_frame) cs' = map (ctype \<circ> court_frame) cs"
    using assms by (metis map_map)
  then show "map ctype cs' = map ctype cs"
    by (simp add: comp_def frame_projections(1) [symmetric])
  have "map (circuitCourtId \<circ> court_frame) cs' = map (circuitCourtId \<circ> court_frame) cs"
    using assms by (metis map_map)
  then show "map circuitCourtId cs' = map circuitCourtId cs"
    by (simp add: comp_def frame_projections(2) [symmetric])
  have "map (isActive \<circ> court_frame) cs' = map (isActive \<circ> court_frame) cs"
    using assms by (metis map_map)
  then show "map isActive cs' = map isActive cs"
    by (simp add: comp_def frame_projections(3) [symmetric])
  have "map (court_id \<circ> court_frame) cs' = map (court_id \<circ> court_frame) cs"
    using assms by (metis map_map)
  then show "map court_id cs' = map court_id cs"
    by (simp add: comp_def frame_projections(4) [symmetric])
  have "map (location \<circ> court_frame) cs' = map (location \<circ> court_frame) cs"
    using assms by (metis map_map)
  then show "map location cs' = map location cs"
    by (simp add: comp_def frame_projections(5) [symmetric])
qed

text \<open>
  Claim C9. Whatever the caller, the court id and the body, and whether the update
  succeeds or fails, the stored courts after \<^verbatim>\<open>PUT /:id\<close> are the stored courts before
  up to the four paths \<open>name\<close>, \<open>address\<close>, \<open>contactInfo\<close> and \<open>description\<close>. In
  particular the \<open>type\<close>, the \<open>circuitCourtId\<close> and the \<open>isActive\<close> flag of every
  stored court are what they were, also when the body carries such keys; no court is
  added or removed, and nothing else in the store changes.
\<close>

theorem court_update_frame:
  "map court_frame (courts (snd (put_court u i b d))) = map court_frame (courts d) \<and>
   map ctype (courts (snd (put_court u i b d))) = map ctype (courts d) \<and>
   map circuitCourtId (courts (snd (put_court u i b d))) = map circuitCourtId (courts d) \<and>
   map isActive (courts (snd (put_court u i b d))) = map isActive (courts d) \<and>
   staff_members (snd (put_court u i b d)) = staff_members d \<and>
   users (snd (put_court u i b d)) = users d \<and>
   nextId (snd (put_court u i b d)) = nextId d"
  using put_court_frame [of u i b d] map_through_frame [OF put_court_frame [of u i b d]]
        put_court_rest [of u i b d]
  by simp

text \<open>
  The administrator renames court 3 and sends a new parent, type and active flag with
  the request: the name is written, the three other keys are not.
\<close>

theorem court_update_frame_witness:
  "courts (snd (put_court admin_caller 3
       ((named_court_body ''Central Court'' (Some 2))\<lparr>b_type := Some Circuit, b_isActive := Some False\<rparr>)
       courts_db)) =
     [example_court 1 ''First Circuit Court'' Circuit None,
      example_court 2 ''Second Circuit Court'' Circuit None,
      example_court 3 ''Central Court'' Magisterial (Some 1),
      example_court 4 ''East Magisterial Court'' Magisterial (Some 2)] \<and>
   map circuitCourtId (courts (snd (put_court admin_caller 3
       ((named_court_body ''Central Court'' (Some 2))\<lparr>b_type := Some Circuit, b_isActive := Some False\<rparr>)
       courts_db))) =
     map circuitCourtId (courts courts_db)"
proof -
  have "courts (snd (put_court admin_caller 3
       ((named_court_body ''Central Court'' (Some 2))\<lparr>b_type := Some Circuit, b_isActive := Some False\<rparr>)
       courts_db)) =
     [example_court 1 ''First Circuit Court'' Circuit None,
      example_court 2 ''Second Circuit Court'' Circuit None,
      example_court 3 ''Central Court'' Magisterial (Some 1),
      example_court 4 ''East Magisterial Court'' Magisterial (Some 2)]"
    by code_simp
  with court_update_frame [of admin_caller 3
         "(named_court_body ''Central Court'' (Some 2))\<lparr>b_type := Some Circuit, b_isActive := Some False\<rparr>"
         courts_db]
  show ?thesis by blast
qed



section \<open>Update of a staff member that keeps the status\<close>

lemma status_changes_same:
  "sb_employmentStatus b = Some (employmentStatus s) \<Longrightarrow> \<not> status_changes b s"
  by (simp add: status_changes_def)

lemma assign_staff_fields_statusDate:
  "assign_staff_fields (sanitize_staff_body (b\<lparr>sb_statusDate := x\<rparr>)) s =
   assign_staff_fields (sanitize_staff_body b) s"
  by (simp add: assign_staff_fields_def sanitize_staff_body_def)

lemma employmentStatus_assign_staff_fields:
  "employmentStatus (assign_staff_fields b s) = employmentStatus s"
  by (simp add: assign_staff_fields_def)

lemma employmentStatus_pre_save: "employmentStatus (pre_save s) = employmentStatus s"
  by (simp add: pre_save_def Let_def)

lemma pre_save_fixed: "status_dates_ok s \<Longrightarrow> pre_save s = s"
  by (cases "employmentStatus s") (auto simp add: status_dates_ok_def pre_save_def Let_def)

lemma put_staff_same_status:
  assumes "find_staff (staff_members d) i = Some s"
    and "sb_employmentStatus b = Some (employmentStatus s)"
  shows "put_staff u i b now d =
     (if \<not> (optional_name_ok (sb_name b) \<and> optional_name_ok (sb_position b))
      then (Inl (ValidationFailed ''Validation failed''), d)
      else
        (case access_lenient u (findById (courts d) (courtId s)) (courts d) of
           Some e \<Rightarrow> (Inl e, d)
         | None \<Rightarrow>
             (case save (assign_staff_fields (sanitize_staff_body b) s) of
                Inl e \<Rightarrow> (Inl InternalError, d)
              | Inr s' \<Rightarrow> (Inr s', d\<lparr>staff_members := replace_staff s' (staff_members d)\<rparr>))))"
  using assms by (simp add: put_staff_def status_changes_same)

text \<open>
  Claim C10. When the body of a staff update carries an \<open>employmentStatus\<close> equal to
  the stored one, the transition is not invoked: the answer and the store after the
  request are the same for every \<open>statusDate\<close> in the body and every clock reading;
  a record that is written is the stored record with the other supplied keys assigned
  and then passed through the pre-save hook, its status is the stored status, and when
  the body carries none of the four status-date keys the four status dates of a record
  that held only dates of its status are what they were.
\<close>

theorem same_status_update_skips_transition:
  assumes "find_staff (staff_members d) i = Some s"
    and "sb_employmentStatus b = Some (employmentStatus s)"
  shows "put_staff u i (b\<lparr>sb_statusDate := x\<rparr>) n1 d = put_staff u i b n2 d \<and>
    (\<forall>s'. fst (put_staff u i b n2 d) = Inr s' \<longrightarrow>
       s' = pre_save (assign_staff_fields (sanitize_staff_body b) s) \<and>
       employmentStatus s' = employmentStatus s \<and>
       (status_dates_ok s \<and> sb_retirementDate b = None \<and> sb_dismissalDate b = None \<and>
        sb_leaveStartDate b = None \<and> sb_leaveEndDate b = None \<longrightarrow>
          retirementDate s' = retirementDate s \<and> dismissalDate s' = dismissalDate s \<and>
          leaveStartDate s' = leaveStartDate s \<and> leaveEndDate s' = leaveEndDate s))"
proof -
  have same: "sb_employmentStatus (b\<lparr>sb_statusDate := x\<rparr>) = Some (employmentStatus s)"
    using assms(2) by simp
  have first: "put_staff u i (b\<lparr>sb_statusDate := x\<rparr>) n1 d = put_staff u i b n2 d"
    unfolding put_staff_same_status [OF assms(1) same] put_staff_same_status [OF assms]
      assign_staff_fields_statusDate
    by simp
  have second: "s' = pre_save (assign_staff_fields (sanitize_staff_body b) s)"
    if "fst (put_staff u i b n2 d) = Inr s'" for s'
    using that
    by (auto simp add: put_staff_same_status [OF assms] save_def
          split: if_splits option.splits sum.splits)
  have third: "employmentStatus (pre_save (assign_staff_fields (sanitize_staff_body b) s)) =
               employmentStatus s"
    by (simp add: employmentStatus_pre_save employmentStatus_assign_staff_fields)
  have fourth:
    "retirementDate (pre_save (assign_staff_fields (sanitize_staff_body b) s)) = retirementDate s \<and>
     dismissalDate (pre_save (assign_staff_fields (sanitize_staff_body b) s)) = dismissalDate s \<and>
     leaveStartDate (pre_save (assign_staff_fields (sanitize_staff_body b) s)) = leaveStartDate s \<and>
     leaveEndDate (pre_save (assign_staff_fields (sanitize_staff_body b) s)) = leaveEndDate s"
    if ok: "status_dates_ok s" and none: "sb_retirementDate b = None" "sb_dismissalDate b = None"
      "sb_leaveStartDate b = None" "sb_leaveEndDate b = None"
  proof -
    have "status_dates_ok (assign_staff_fields (sanitize_staff_body b) s)"
      using ok none
      by (simp add: status_dates_ok_def assign_staff_fields_def sanitize_staff_body_def)
    then have "pre_save (assign_staff_fields (sanitize_staff_body b) s) =
               assign_staff_fields (sanitize_staff_body b) s"
      by (rule pre_save_fixed)
    then show ?thesis
      using none by (simp add: assign_staff_fields_def sanitize_staff_body_def)
  qed
  from first second third fourth show ?thesis
    by blast
qed

text \<open>
  Staff member 5 has retired on 2024-03-01. A later update with the status
  \<open>retired\<close>, another \<open>statusDate\<close> and new notes writes the notes and leaves the
  retirement date.
\<close>

theorem same_status_update_skips_transition_witness:
  "find_staff (staff_members retired_db) 5 =
     Some ((example_staff 5 ''John Smith'' ''Court Clerk'' Circuit 1 1705312800000)
             \<lparr>employmentStatus := Retired, retirementDate := Some 1709251200000\<rparr>) \<and>
   fst (put_staff admin_caller 5
          (empty_staff_body\<lparr>sb_employmentStatus := Some Retired,
                             sb_statusDate := Some 1711929600000,
                             sb_notes := Some (Some ''pension file closed'')\<rparr>)
          1712000000000 retired_db) =
     Inr ((example_staff 5 ''John Smith'' ''Court Clerk'' Circuit 1 1705312800000)
             \<lparr>employmentStatus := Retired, retirementDate := Some 1709251200000,
               staff_notes := Some ''pension file closed''\<rparr>) \<and>
   put_staff admin_caller 5
          (empty_staff_body\<lparr>sb_employmentStatus := Some Retired,
                             sb_notes := Some (Some ''pension file closed''),
                             sb_statusDate := Some 1711929600000\<rparr>)
          1712000000000 retired_db =
   put_staff admin_caller 5
          (empty_staff_body\<lparr>sb_employmentStatus := Some Retired,
                             sb_notes := Some (Some ''pension file closed'')\<rparr>)
          1712345678901 retired_db"
proof -
  have found: "find_staff (staff_members retired_db) 5 =
     Some ((example_staff 5 ''John Smith'' ''Court Clerk'' Circuit 1 1705312800000)
             \<lparr>employmentStatus := Retired, retirementDate := Some 1709251200000\<rparr>)"
    by code_simp
  have same: "sb_employmentStatus
                (empty_staff_body\<lparr>sb_employmentStatus := Some Retired,
                                   sb_notes := Some (Some ''pension file closed'')\<rparr>) =
              Some (employmentStatus
                ((example_staff 5 ''John Smith'' ''Court Clerk'' Circuit 1 1705312800000)
                   \<lparr>employmentStatus := Retired, retirementDate := Some 1709251200000\<rparr>))"
    by simp
  have written: "fst (put_staff admin_caller 5
          (empty_staff_body\<lparr>sb_employmentStatus := Some Retired,
                             sb_statusDate := Some 1711929600000,
                             sb_notes := Some (Some ''pension file closed'')\<rparr>)
          1712000000000 retired_db) =
     Inr ((example_staff 5 ''John Smith'' ''Court Clerk'' Circuit 1 1705312800000)
             \<lparr>employmentStatus := Retired, retirementDate := Some 1709251200000,
               staff_notes := Some ''pension file closed''\<rparr>)"
    by code_simp
  from same_status_update_skips_transition
         [OF found same, of admin_caller "Some 1711929600000" 1712000000000 1712345678901]
  have "put_staff admin_caller 5
          (empty_staff_body\<lparr>sb_employmentStatus := Some Retired,
                             sb_notes := Some (Some ''pension file closed''),
                             sb_statusDate := Some 1711929600000\<rparr>)
          1712000000000 retired_db =
        put_staff admin_caller 5
          (empty_staff_body\<lparr>sb_employmentStatus := Some Retired,
                             sb_notes := Some (Some ''pension file closed'')\<rparr>)
          1712345678901 retired_db"
    by blast
  with found written show ?thesis
    by blast
qed



section \<open>Creation of a user\<close>

lemma role_ok_iff: "role_ok r \<longleftrightarrow> r = Some ''admin''"
  by (cases r) (simp_all add: role_ok_def)

text \<open>
  Claim C8, as the code has it. For a request of an administrator, the role validator of
  the creation route accepts the requested role exactly when it is \<open>admin\<close>. Every
  other role, \<open>circuit\<close> and \<open>magisterial\<close> included, and an absent role fail with a
  validation failure (status 400) and nothing is written. A request with role
  \<open>admin\<close> that satisfies the other field constraints and whose username is not
  taken succeeds and stores a user of role \<open>admin\<close>.
\<close>

theorem user_creation_accepts_only_admin:
  assumes "role u = Admin"
  shows "(role_ok (ub_role b) \<longleftrightarrow> ub_role b = Some ''admin'') \<and>
    (ub_role b \<noteq> Some ''admin'' \<longrightarrow>
       post_user u b d = (Inl (ValidationFailed ''Validation failed''), d)) \<and>
    (ub_role b = Some ''admin'' \<and>
     3 \<le> length (trim (or_empty (ub_username b))) \<and>
     isAlphanumeric (trim (or_empty (ub_username b))) \<and>
     6 \<le> length (or_empty (ub_password b)) \<and>
     2 \<le> length (trim (or_empty (ub_name b))) \<and>
     findByUsername (users d) (trim (or_empty (ub_username b))) = None \<longrightarrow>
       (\<exists>x. fst (post_user u b d) = Inr x \<and> user_role x = Admin \<and>
            users (snd (post_user u b d)) = users d @ [x]))"
proof -
  have gate: "requireRole [Admin] u = None"
    using assms by (simp add: requireRole_def)
  have refuse: "post_user u b d = (Inl (ValidationFailed ''Validation failed''), d)"
    if "ub_role b \<noteq> Some ''admin''"
    using that by (simp add: post_user_def gate user_body_ok_def role_ok_iff)
  have accept: "\<exists>x. fst (post_user u b d) = Inr x \<and> user_role x = Admin \<and>
                    users (snd (post_user u b d)) = users d @ [x]"
    if "ub_role b = Some ''admin''"
      and "3 \<le> length (trim (or_empty (ub_username b)))"
      and "isAlphanumeric (trim (or_empty (ub_username b)))"
      and "6 \<le> length (or_empty (ub_password b))"
      and "2 \<le> length (trim (or_empty (ub_name b)))"
      and "findByUsername (users d) (trim (or_empty (ub_username b))) = None"
    using that
    by (simp add: post_user_def gate user_body_ok_def role_ok_iff parse_role_def
          or_empty_def Let_def)
  from refuse accept show ?thesis
    by (simp add: role_ok_iff)
qed

theorem user_creation_accepts_only_admin_witness:
  "role admin_caller = Admin \<and>
   post_user admin_caller (clerk_body ''magisterial'') empty_db =
     (Inl (ValidationFailed ''Validation failed''), empty_db) \<and>
   \<not> role_ok (ub_role (clerk_body ''magisterial''))"
proof -
  have adm: "role admin_caller = Admin"
    by (simp add: admin_caller_def)
  have "ub_role (clerk_body ''magisterial'') \<noteq> Some ''admin''"
    by (simp add: clerk_body_def)
  with user_creation_accepts_only_admin [OF adm, of "clerk_body ''magisterial''" empty_db] adm
  show ?thesis
    by blast
qed

text \<open>
  A request of the administrator with role \<open>circuit\<close> whose other fields pass (the same
  body with role \<open>admin\<close> is stored) is refused with status 400.
\<close>

theorem circuit_role_refused_counterexample:
  "post_user admin_caller (clerk_body ''circuit'') empty_db =
     (Inl (ValidationFailed ''Validation failed''), empty_db) \<and>
   fst (post_user admin_caller (clerk_body ''admin'') empty_db) =
     Inr \<lparr>user_id = 1, username = ''clerk1'', password = Hashed ''secret1'',
          user_role = Admin, user_name = ''Clerk One'', user_circuitCourtId = None,
          user_isActive = True\<rparr>"
  by code_simp


section \<open>The permission check of the staff-by-court route\<close>

lemma new_court_has_no_userId: "court_userId (new_court i t b) = None"
  by (simp add: new_court_def)

lemma access_strict_without_userId:
  "role u \<noteq> Admin \<Longrightarrow> court_userId c = None \<Longrightarrow> access_strict u c cs = Some InternalError"
  by (simp add: access_strict_def)

lemma get_staff_by_court_without_userId:
  assumes "findById (courts d) i = Some c" and "court_userId c = None" and "role u \<noteq> Admin"
  shows "get_staff_by_court u i d = Inl InternalError"
  using assms by (simp add: get_staff_by_court_def access_strict_without_userId)

lemma get_staff_by_court_unknown:
  "findById (courts d) i = None \<Longrightarrow> get_staff_by_court u i d = Inl (NotFound ''Court not found'')"
  by (simp add: get_staff_by_court_def)

text \<open>
  On courts that do carry a \<^verbatim>\<open>userId\<close> the check computes the rule the comments of the
  handler state: a circuit caller passes for a court of their own and for a court whose
  \<open>circuitCourtId\<close> is the id of their circuit court, and is refused with status 403
  otherwise; a magisterial caller passes for a court of their own only.
\<close>

lemma access_strict_circuit_with_userId:
  assumes "role u = CircuitUser" and "court_userId c = Some owner"
    and "findOne_circuit_of cs (userId u) = Some x"
  shows "access_strict u c cs =
     (if owner = userId u \<or> circuitCourtId c = Some (court_id x) then None
      else Some (PermissionDenied ''Access denied''))"
  using assms by (simp add: access_strict_def circuit_branch_def)

lemma access_strict_magisterial_with_userId:
  assumes "role u = MagisterialUser" and "court_userId c = Some owner"
  shows "access_strict u c cs =
     (if owner = userId u then None else Some (PermissionDenied ''Access denied''))"
  using assms by (simp add: access_strict_def circuit_branch_def)

text \<open>
  The sibling check of \<^verbatim>\<open>GET /:id\<close> guards the read of \<^verbatim>\<open>userId\<close> with
  \<^verbatim>\<open>?.\<close> and does not throw on the same store: with no court carrying a
  \<^verbatim>\<open>userId\<close> the query for the caller's circuit court finds none, and the caller is
  refused with status 403.
\<close>

lemma circuit_caller_reads_staff_member_6:
  "get_staff_by_id circuit_caller 6 example_db = Inl (PermissionDenied ''Access denied'')"
  by code_simp

lemma admin_reads_staff_of_court_3:
  "get_staff_by_court admin_caller 3 example_db =
     Inr [example_staff 6 ''Lisa Davis'' ''Magistrate Clerk'' Magisterial 3 1707130800000]"
  by code_simp

text \<open>
  Claim C1, at a failing input. The store holds the courts as the creation routes build
  them. A caller of role \<open>circuit\<close> asks for the staff of the magisterial court 3 under
  circuit court 1, of circuit court 1 itself, and of the other circuit court 2. The
  claim has the first two allowed and the third refused with status 403; the handler
  answers status 500 to all three.
\<close>

theorem circuit_caller_gets_internal_error:
  "get_staff_by_court circuit_caller 3 example_db = Inl InternalError \<and>
   get_staff_by_court circuit_caller 1 example_db = Inl InternalError \<and>
   get_staff_by_court circuit_caller 2 example_db = Inl InternalError"
  by code_simp

text \<open>
  Claim C2, at a failing input. A caller of role \<open>magisterial\<close> asks for the staff of
  the magisterial court 3 and of its parent circuit court 1. The claim has one court
  allowed and the parent refused with status 403; the handler answers status 500 to
  both.
\<close>

theorem magisterial_caller_gets_internal_error:
  "get_staff_by_court magisterial_caller 3 example_db = Inl InternalError \<and>
   get_staff_by_court magisterial_caller 1 example_db = Inl InternalError \<and>
   http_status InternalError = 500"
  by code_simp

text \<open>
  Claim C6, at a failing input. For a court id that does not resolve the answer is
  not-found (status 404), as the claim has it. For the existing court 4, which is
  neither the court 3 nor under a court of the caller, the claim has the answer
  permission-denied (status 403) and never a generic failure; the handler answers the
  generic failure (status 500).
\<close>

theorem unauthorized_caller_gets_generic_failure:
  "get_staff_by_court magisterial_caller 99 example_db = Inl (NotFound ''Court not found'') \<and>
   findById (courts example_db) 4 =
     Some (example_court 4 ''East Magisterial Court'' Magisterial (Some 2)) \<and>
   get_staff_by_court magisterial_caller 4 example_db = Inl InternalError \<and>
   get_staff_by_court magisterial_caller 4 example_db \<noteq> Inl (PermissionDenied ''Access denied'')"
  by code_simp

end
